theory Spec2Isabelle
  imports Complex_Main "HOL-Library.Multiset"
begin

section \<open>Numbers, vectors and quaternions\<close>

text \<open>
  The engine is the React component \<open>Cube\<close>, in two variants: the main one
  (\<open>src/components/Cube.tsx\<close>) and the one with the overshoot sub-phases
  (\<open>unnamed/part_001\<close>). Both share the geometry code and differ in constants, in
  what \<open>rotateLayer\<close> snaps and in the frame callback.

  JavaScript numbers are modelled as exact reals: \<open>Math.PI\<close> is \<open>pi\<close>,
  \<open>Math.sin\<close> and \<open>Math.cos\<close> are \<open>sin\<close> and \<open>cos\<close>, and no rounding error,
  infinity or NaN exists. Every statement below is about this exact-arithmetic reading
  of the code.
\<close>

datatype Vector3 = Vector3 (vx: real) (vy: real) (vz: real)

datatype Quaternion = Quaternion (qx: real) (qy: real) (qz: real) (qw: real)

datatype axis = AxisX | AxisY | AxisZ

text \<open>\<open>Vector3.getComponent\<close>, read at the index \<open>{x: 0, y: 1, z: 2}[axis]\<close>: the
  index is represented by the axis letter it comes from, so it is never out of range.\<close>

fun getComponent :: "Vector3 \<Rightarrow> axis \<Rightarrow> real" where
  "getComponent v AxisX = vx v"
| "getComponent v AxisY = vy v"
| "getComponent v AxisZ = vz v"

text \<open>\<open>center[axis] = s\<close> on a vector: \<open>setX\<close>, \<open>setY\<close>, \<open>setZ\<close>.\<close>

fun setComponent :: "Vector3 \<Rightarrow> axis \<Rightarrow> real \<Rightarrow> Vector3" where
  "setComponent v AxisX s = Vector3 s (vy v) (vz v)"
| "setComponent v AxisY s = Vector3 (vx v) s (vz v)"
| "setComponent v AxisZ s = Vector3 (vx v) (vy v) s"

definition v_sub :: "Vector3 \<Rightarrow> Vector3 \<Rightarrow> Vector3" where
  "v_sub a b = Vector3 (vx a - vx b) (vy a - vy b) (vz a - vz b)"

definition v_add :: "Vector3 \<Rightarrow> Vector3 \<Rightarrow> Vector3" where
  "v_add a b = Vector3 (vx a + vx b) (vy a + vy b) (vz a + vz b)"

definition multiplyScalar :: "Vector3 \<Rightarrow> real \<Rightarrow> Vector3" where
  "multiplyScalar v s = Vector3 (vx v * s) (vy v * s) (vz v * s)"

definition v_length :: "Vector3 \<Rightarrow> real" where
  "v_length v = sqrt (vx v * vx v + vy v * vy v + vz v * vz v)"

text \<open>\<open>Vector3.normalize\<close>: \<open>this.divideScalar(this.length() || 1)\<close>.\<close>

definition normalize :: "Vector3 \<Rightarrow> Vector3" where
  "normalize v = multiplyScalar v (1 / (if v_length v = 0 then 1 else v_length v))"

text \<open>\<open>Quaternion.setFromAxisAngle\<close>: the axis is assumed normalised.\<close>

definition setFromAxisAngle :: "Vector3 \<Rightarrow> real \<Rightarrow> Quaternion" where
  "setFromAxisAngle ax angle =
     (let halfAngle = angle / 2; s = sin halfAngle
      in Quaternion (vx ax * s) (vy ax * s) (vz ax * s) (cos halfAngle))"

text \<open>\<open>Vector3.applyQuaternion\<close>: \<open>t = 2 * cross(q.xyz, v)\<close>, then
  \<open>v + q.w * t + cross(q.xyz, t)\<close>.\<close>

definition applyQuaternion :: "Vector3 \<Rightarrow> Quaternion \<Rightarrow> Vector3" where
  "applyQuaternion v q =
     (let tx = 2 * (qy q * vz v - qz q * vy v);
          ty = 2 * (qz q * vx v - qx q * vz v);
          tz = 2 * (qx q * vy v - qy q * vx v)
      in Vector3 (vx v + qw q * tx + qy q * tz - qz q * ty)
                 (vy v + qw q * ty + qz q * tx - qx q * tz)
                 (vz v + qw q * tz + qx q * ty - qy q * tx))"

definition applyAxisAngle :: "Vector3 \<Rightarrow> Vector3 \<Rightarrow> real \<Rightarrow> Vector3" where
  "applyAxisAngle v ax angle = applyQuaternion v (setFromAxisAngle ax angle)"

text \<open>\<open>Quaternion.multiplyQuaternions(a, b)\<close>, the Hamilton product \<open>a * b\<close>.\<close>

definition multiplyQuaternions :: "Quaternion \<Rightarrow> Quaternion \<Rightarrow> Quaternion" where
  "multiplyQuaternions a b =
     Quaternion (qx a * qw b + qw a * qx b + qy a * qz b - qz a * qy b)
                (qy a * qw b + qw a * qy b + qz a * qx b - qx a * qz b)
                (qz a * qw b + qw a * qz b + qx a * qy b - qy a * qx b)
                (qw a * qw b - qx a * qx b - qy a * qy b - qz a * qz b)"

text \<open>\<open>q.premultiply(r)\<close> is \<open>multiplyQuaternions(r, q)\<close>.\<close>

definition premultiply :: "Quaternion \<Rightarrow> Quaternion \<Rightarrow> Quaternion" where
  "premultiply q r = multiplyQuaternions r q"

text \<open>\<open>Math.round\<close> rounds to the nearest integer, a half towards plus infinity;
  \<open>Math.sign\<close> is \<open>sgn\<close> and \<open>Math.abs\<close> is \<open>abs\<close>.\<close>

definition Math_round :: "real \<Rightarrow> real" where
  "Math_round r = of_int \<lfloor>r + 1 / 2\<rfloor>"

text \<open>\<open>THREE.MathUtils.degToRad\<close>.\<close>

definition degToRad :: "real \<Rightarrow> real" where
  "degToRad d = d * (pi / 180)"

section \<open>Geometry constants\<close>

datatype variant = Main | Overshoot

datatype face = TOP | RIGHT | BOTTOM | LEFT | FRONT | BACK

definition ROTATION_AXES :: "face \<Rightarrow> Vector3" where
  "ROTATION_AXES f =
     (case f of
        TOP \<Rightarrow> normalize (Vector3 0 1 0)
      | RIGHT \<Rightarrow> normalize (Vector3 1 0 0)
      | BOTTOM \<Rightarrow> normalize (Vector3 0 (- 1) 0)
      | LEFT \<Rightarrow> normalize (Vector3 (- 1) 0 0)
      | FRONT \<Rightarrow> normalize (Vector3 0 0 1)
      | BACK \<Rightarrow> normalize (Vector3 0 0 (- 1)))"

text \<open>The main variant alternates the sign, the overshoot variant has 1 for every face.\<close>

definition ROTATION_DIRECTIONS :: "variant \<Rightarrow> face \<Rightarrow> real" where
  "ROTATION_DIRECTIONS V f =
     (case V of
        Main \<Rightarrow>
          (case f of RIGHT \<Rightarrow> 1 | LEFT \<Rightarrow> - 1 | TOP \<Rightarrow> 1 | BOTTOM \<Rightarrow> - 1
                   | FRONT \<Rightarrow> 1 | BACK \<Rightarrow> - 1)
      | Overshoot \<Rightarrow> 1)"

text \<open>\<open>LAYER_INDICES\<close>: the pair \<open>{axis, value}\<close> of each face.\<close>

definition LAYER_INDICES :: "face \<Rightarrow> axis \<times> real" where
  "LAYER_INDICES f =
     (case f of
        RIGHT \<Rightarrow> (AxisX, 1)
      | LEFT \<Rightarrow> (AxisX, - 1)
      | TOP \<Rightarrow> (AxisY, 1)
      | BOTTOM \<Rightarrow> (AxisY, - 1)
      | FRONT \<Rightarrow> (AxisZ, 1)
      | BACK \<Rightarrow> (AxisZ, - 1))"

definition ROTATION_SEQUENCE :: "face list" where
  "ROTATION_SEQUENCE = [RIGHT, FRONT, BACK, LEFT, TOP, BOTTOM]"

definition CUBE_SIZE :: real where
  "CUBE_SIZE = 1"

definition CUBE_GAP :: "variant \<Rightarrow> real" where
  "CUBE_GAP V = (case V of Main \<Rightarrow> 1 / 100000 | Overshoot \<Rightarrow> 1 / 1000000)"

definition EPSILON :: "variant \<Rightarrow> real" where
  "EPSILON V = (case V of Main \<Rightarrow> 1 / 1000000000 | Overshoot \<Rightarrow> 1 / 10000000)"

definition easeInOutCubic :: "real \<Rightarrow> real" where
  "easeInOutCubic t = (if t < 1 / 2 then 4 * t * t * t else 1 - (- 2 * t + 2) ^ 3 / 2)"

section \<open>Grid state\<close>

record CubiePosition =
  position :: Vector3
  indices :: Vector3
  quaternion :: Quaternion
  kind :: string

definition getTargetPositions :: "(int \<times> int \<times> int) list" where
  "getTargetPositions =
     concat (map (\<lambda>x. concat (map (\<lambda>y. concat (map (\<lambda>z.
       if x = 0 \<and> y = 0 \<and> z = 0 then [] else [(x, y, z)]) [- 1, 0, 1])) [- 1, 0, 1])) [- 1, 0, 1])"

text \<open>A fresh \<open>THREE.Quaternion()\<close> is the identity.\<close>

definition identityQuaternion :: Quaternion where
  "identityQuaternion = Quaternion 0 0 0 1"

definition initialCubie :: "variant \<Rightarrow> int \<times> int \<times> int \<Rightarrow> CubiePosition" where
  "initialCubie V p =
     (case p of (x, y, z) \<Rightarrow>
        (let posX = of_int x * (CUBE_SIZE + CUBE_GAP V);
             posY = of_int y * (CUBE_SIZE + CUBE_GAP V);
             posZ = of_int z * (CUBE_SIZE + CUBE_GAP V);
             zeroCount = length (filter (\<lambda>coord. coord = 0) [x, y, z])
         in \<lparr> position = Vector3 posX posY posZ,
              indices = Vector3 (of_int x) (of_int y) (of_int z),
              quaternion = identityQuaternion,
              kind = (if zeroCount = 1 then ''edge''
                      else if zeroCount = 2 then ''center'' else ''corner'') \<rparr>))"

definition initialCubiePositions :: "variant \<Rightarrow> CubiePosition list" where
  "initialCubiePositions V = map (initialCubie V) getTargetPositions"

section \<open>Layer selector, grid snapper, rotation transformer\<close>

definition getFaceCenter :: "variant \<Rightarrow> face \<Rightarrow> Vector3" where
  "getFaceCenter V f =
     (case LAYER_INDICES f of (ax, val) \<Rightarrow>
        setComponent (Vector3 0 0 0) ax (val * (CUBE_SIZE + CUBE_GAP V)))"

text \<open>\<open>getCubiesInLayer\<close> maps every cubie to its own index or to the sentinel -1, then
  filters the sentinel out.\<close>

definition getCubiesInLayer :: "variant \<Rightarrow> CubiePosition list \<Rightarrow> face \<Rightarrow> int list" where
  "getCubiesInLayer V cubiePositions f =
     (case LAYER_INDICES f of (ax, val) \<Rightarrow>
        filter (\<lambda>i. i \<noteq> - 1)
          (map (\<lambda>(i, cubie).
                  if \<bar>getComponent (indices cubie) ax - val\<bar> < EPSILON V then int i else - 1)
               (enumerate 0 cubiePositions)))"

definition snapToGrid :: "variant \<Rightarrow> Vector3 \<Rightarrow> Vector3" where
  "snapToGrid V vec =
     (let x = (if \<bar>vx vec\<bar> < EPSILON V then 0 else sgn (vx vec) * Math_round \<bar>vx vec\<bar>);
          y = (if \<bar>vy vec\<bar> < EPSILON V then 0 else sgn (vy vec) * Math_round \<bar>vy vec\<bar>);
          z = (if \<bar>vz vec\<bar> < EPSILON V then 0 else sgn (vz vec) * Math_round \<bar>vz vec\<bar>)
      in Vector3 x y z)"

definition calculateLayerRotation ::
  "variant \<Rightarrow> CubiePosition list \<Rightarrow> face \<Rightarrow> real \<Rightarrow> CubiePosition list" where
  "calculateLayerRotation V cubiePositions f angle =
     (let cubiesInLayer = getCubiesInLayer V cubiePositions f;
          ax = ROTATION_AXES f;
          direction = ROTATION_DIRECTIONS V f;
          centerPoint = getFaceCenter V f;
          rotationQuat = setFromAxisAngle ax (angle * direction)
      in map (\<lambda>(index, cubie).
                if int index \<notin> set cubiesInLayer then cubie
                else cubie \<lparr>
                  position :=
                    v_add (applyAxisAngle (v_sub (position cubie) centerPoint) ax (angle * direction))
                          centerPoint,
                  indices := applyAxisAngle (indices cubie) ax (angle * direction),
                  quaternion := premultiply (quaternion cubie) rotationQuat \<rparr>)
             (enumerate 0 cubiePositions))"

text \<open>\<open>rotateLayer\<close>: the main variant snaps the position and the grid index of every
  cubie, the overshoot variant only the grid index. The position that the overshoot
  variant leaves unsnapped is exact over the reals, where the doubles of the code carry
  the rounding error of the rotation; what is stated below about stored positions after
  a commit is therefore stated for the main variant, which snaps them.\<close>

definition rotateLayer :: "variant \<Rightarrow> CubiePosition list \<Rightarrow> face \<Rightarrow> CubiePosition list" where
  "rotateLayer V cubiePositions f =
     (let rotatedPositions = calculateLayerRotation V cubiePositions f (pi / 2)
      in map (\<lambda>cubie.
                case V of
                  Main \<Rightarrow> cubie \<lparr> position := snapToGrid V (position cubie),
                                   indices := snapToGrid V (indices cubie) \<rparr>
                | Overshoot \<Rightarrow> cubie \<lparr> indices := snapToGrid V (indices cubie) \<rparr>)
             rotatedPositions)"

section \<open>Animation state and frame driver\<close>

text \<open>The state of the main variant's \<open>rotationState\<close>; the overshoot variant adds two
  flags.\<close>

record RotationState =
  isRotating :: bool
  currentFace :: "face option"
  progress :: real
  sequenceIndex :: nat
  inSequencePause :: bool
  inRotationPause :: bool

record OvershootState = RotationState +
  overshootPhase :: bool
  overshootReturn :: bool

text \<open>What the renderer holds for one cubie: the position and quaternion of its group.\<close>

record Transform =
  t_position :: Vector3
  t_quaternion :: Quaternion

datatype timer = StartNextRotation

text \<open>
  The component's state between two frames: the React state \<open>cubiePositions\<close> and
  \<open>rotationState\<close>, the group objects behind \<open>cubieRefs\<close> (\<open>None\<close> for a ref that is
  not set), the \<open>rotation.x\<close> and \<open>rotation.y\<close> of the group behind \<open>groupRef\<close>, and
  the pending \<open>setTimeout\<close> calls with their delays in milliseconds. A frame callback
  reads the React state of the last render and queues its updates, which are applied in
  the order of the calls.
\<close>

record 'r Engine =
  cubiePositions :: "CubiePosition list"
  rotationState :: 'r
  cubieRefs :: "Transform option list"
  groupRef :: "(real \<times> real) option"
  timeouts :: "(nat \<times> timer) list"

definition toTransform :: "CubiePosition \<Rightarrow> Transform" where
  "toTransform c = \<lparr> t_position = position c, t_quaternion = quaternion c \<rparr>"

text \<open>\<open>if (ref at index) { copy the position and quaternion of source[index] }\<close>: a
  missing array element and a ref that is not set are both skipped.\<close>

definition copyToRef ::
  "CubiePosition list \<Rightarrow> int \<Rightarrow> Transform option list \<Rightarrow> Transform option list" where
  "copyToRef source index refs =
     (if 0 \<le> index \<and> nat index < length refs then
        (case refs ! nat index of
           None \<Rightarrow> refs
         | Some g \<Rightarrow> refs[nat index := Some (toTransform (source ! nat index))])
      else refs)"

text \<open>\<open>idxs.forEach(index => ...)\<close>. Every index comes from a list as long as
  \<open>source\<close>.\<close>

definition copyToRefs ::
  "CubiePosition list \<Rightarrow> int list \<Rightarrow> Transform option list \<Rightarrow> Transform option list" where
  "copyToRefs source idxs refs = fold (copyToRef source) idxs refs"

definition spinGroup :: "real \<Rightarrow> real \<Rightarrow> (real \<times> real) option \<Rightarrow> (real \<times> real) option" where
  "spinGroup dx dy g = map_option (\<lambda>(rx, ry). (rx + dx, ry + dy)) g"

definition rotationSpeed :: real where
  "rotationSpeed = 85 / 100"

definition cubeRotationSpeed :: real where
  "cubeRotationSpeed = 5 / 100"

text \<open>The frame callback of the main variant (\<open>Cube.tsx\<close>).\<close>

definition useFrame_Main :: "RotationState Engine \<Rightarrow> real \<Rightarrow> RotationState Engine" where
  "useFrame_Main e delta =
     (let e1 = e \<lparr> groupRef :=
                 spinGroup (delta * (cubeRotationSpeed / 2)) (delta * cubeRotationSpeed) (groupRef e) \<rparr>;
          rs = rotationState e;
          cs = cubiePositions e
      in case (if isRotating rs then currentFace rs else None) of
           None \<Rightarrow> e1
         | Some f \<Rightarrow>
             (let rotationDuration = rotationSpeed;
                  newProgress = progress rs + delta / rotationDuration;
                  prog = min newProgress 1;
                  easedProgress = easeInOutCubic prog;
                  angleToRotate = (pi / 2) * easedProgress
              in if prog \<ge> 1 then
                   (let finalPositions = rotateLayer Main cs f;
                        cubiesInLayer = getCubiesInLayer Main cs f
                    in e1 \<lparr> cubiePositions := finalPositions,
                            cubieRefs := copyToRefs finalPositions cubiesInLayer (cubieRefs e),
                            rotationState :=
                              rs \<lparr> isRotating := False, inRotationPause := True, progress := 0 \<rparr>,
                            timeouts := timeouts e @ [(1500, StartNextRotation)] \<rparr>)
                 else
                   (let rotatedPositions = calculateLayerRotation Main cs f angleToRotate;
                        cubiesInLayer = getCubiesInLayer Main cs f
                    in e1 \<lparr> cubieRefs := copyToRefs rotatedPositions cubiesInLayer (cubieRefs e),
                            rotationState := rs \<lparr> progress := newProgress \<rparr> \<rparr>)))"

text \<open>
  The frame callback of the overshoot variant (\<open>unnamed/part_001\<close>). The phase branch
  yields the state after its own \<open>updateRotationState\<close> call, the completion flag, the
  angle and the grid state; the update at the end of the callback is applied after it.
  The intermediate positions are computed for the face \<open>'TOP'\<close>, as the source has it.
\<close>

definition useFrame_Overshoot :: "OvershootState Engine \<Rightarrow> real \<Rightarrow> OvershootState Engine" where
  "useFrame_Overshoot e delta =
     (let e1 = e \<lparr> groupRef := spinGroup (delta * (5 / 1000)) (delta * (1 / 100)) (groupRef e) \<rparr>;
          rs = rotationState e;
          cs = cubiePositions e;
          e2 =
            (case (if isRotating rs then currentFace rs else None) of
               Some f \<Rightarrow>
                 (let cubiesInLayer = getCubiesInLayer Overshoot cs f;
                      rotationDuration = 8 / 10;
                      newProgress = progress rs + delta / rotationDuration;
                      baseRotation = pi / 2;
                      overshootAmount = degToRad 3;
                      (rs1, isRotationComplete, angleToRotate, cs1) =
                        (if overshootPhase rs then
                           (if newProgress \<ge> 1 then
                              (rs \<lparr> overshootPhase := False, overshootReturn := True, progress := 0 \<rparr>,
                               False, baseRotation + overshootAmount, cs)
                            else
                              (rs, False,
                               baseRotation * easeInOutCubic newProgress
                                 + overshootAmount * easeInOutCubic newProgress, cs))
                         else if overshootReturn rs then
                           (if newProgress \<ge> 1 then
                              (rs, True, baseRotation, rotateLayer Overshoot cs f)
                            else
                              (rs, False,
                               baseRotation + overshootAmount * (1 - easeInOutCubic newProgress), cs))
                         else
                           (if newProgress \<ge> 1 then
                              (rs \<lparr> overshootPhase := True, progress := 0 \<rparr>, False, baseRotation, cs)
                            else
                              (rs, False, baseRotation * easeInOutCubic newProgress, cs)));
                      tempPositions = calculateLayerRotation Overshoot cs TOP angleToRotate;
                      refs1 = copyToRefs tempPositions cubiesInLayer (cubieRefs e)
                  in if isRotationComplete then
                       e1 \<lparr> cubiePositions := cs1,
                            cubieRefs := refs1,
                            rotationState :=
                              rs1 \<lparr> isRotating := False, inRotationPause := True, progress := 0,
                                    overshootPhase := False, overshootReturn := False \<rparr>,
                            timeouts := timeouts e @ [(1000, StartNextRotation)] \<rparr>
                     else
                       e1 \<lparr> cubiePositions := cs1,
                            cubieRefs := refs1,
                            rotationState := rs1 \<lparr> progress := newProgress \<rparr> \<rparr>)
             | None \<Rightarrow>
                 (if \<not> inRotationPause rs \<and> \<not> inSequencePause rs \<and> \<not> isRotating rs then
                    e1 \<lparr> rotationState :=
                           rs \<lparr> isRotating := True, currentFace := Some (ROTATION_SEQUENCE ! 0),
                                progress := 0, sequenceIndex := 0, inSequencePause := False,
                                inRotationPause := False, overshootPhase := False,
                                overshootReturn := False \<rparr> \<rparr>
                  else e1))
      in if \<not> isRotating rs then
           e2 \<lparr> cubieRefs := copyToRefs cs (map int [0..<length cs]) (cubieRefs e2) \<rparr>
         else e2)"

text \<open>
  The mounted component of each variant at the moment the first turn starts:
  \<open>cubiePositions\<close> is \<open>initialCubiePositions\<close>, every ref is set, and
  \<open>isRotating\<close> and \<open>currentFace = ROTATION_SEQUENCE[0]\<close> have been set (by the first
  timer in the main variant, by the first frame in the overshoot variant).
\<close>

definition startedEngine_Main :: "RotationState Engine" where
  "startedEngine_Main =
     \<lparr> cubiePositions = initialCubiePositions Main,
       rotationState = \<lparr> isRotating = True, currentFace = Some (ROTATION_SEQUENCE ! 0),
                         progress = 0, sequenceIndex = 0, inSequencePause = False,
                         inRotationPause = False \<rparr>,
       cubieRefs = map (\<lambda>c. Some (toTransform c)) (initialCubiePositions Main),
       groupRef = Some (0, 0),
       timeouts = [] \<rparr>"

definition startedEngine_Overshoot :: "OvershootState Engine" where
  "startedEngine_Overshoot =
     \<lparr> cubiePositions = initialCubiePositions Overshoot,
       rotationState = \<lparr> isRotating = True, currentFace = Some (ROTATION_SEQUENCE ! 0),
                         progress = 0, sequenceIndex = 0, inSequencePause = False,
                         inRotationPause = False, overshootPhase = False,
                         overshootReturn = False \<rparr>,
       cubieRefs = map (\<lambda>c. Some (toTransform c)) (initialCubiePositions Overshoot),
       groupRef = Some (0, 0),
       timeouts = [] \<rparr>"

section \<open>Auxiliary definitions for the statements\<close>

text \<open>
  The definitions of this section are not functions of the source: they name what the
  statements and proofs below speak about. \<open>snapc\<close> is the expression that
  \<open>snapToGrid\<close> evaluates for each of the three components.
\<close>

definition snapc :: "real \<Rightarrow> real \<Rightarrow> real" where
  "snapc eps c = (if \<bar>c\<bar> < eps then 0 else sgn c * Math_round \<bar>c\<bar>)"

text \<open>The test of \<open>getCubiesInLayer\<close> on one grid index.\<close>

definition inLayer :: "variant \<Rightarrow> face \<Rightarrow> Vector3 \<Rightarrow> bool" where
  "inLayer V f idx =
     (\<bar>getComponent idx (fst (LAYER_INDICES f)) - snd (LAYER_INDICES f)\<bar> < EPSILON V)"

text \<open>What \<open>calculateLayerRotation\<close> returns for a cubie of the layer.\<close>

definition rotateCubie :: "variant \<Rightarrow> face \<Rightarrow> real \<Rightarrow> CubiePosition \<Rightarrow> CubiePosition" where
  "rotateCubie V f angle cubie =
     cubie \<lparr>
       position :=
         v_add (applyAxisAngle (v_sub (position cubie) (getFaceCenter V f)) (ROTATION_AXES f)
                  (angle * ROTATION_DIRECTIONS V f))
               (getFaceCenter V f),
       indices := applyAxisAngle (indices cubie) (ROTATION_AXES f) (angle * ROTATION_DIRECTIONS V f),
       quaternion := premultiply (quaternion cubie)
          (setFromAxisAngle (ROTATION_AXES f) (angle * ROTATION_DIRECTIONS V f)) \<rparr>"

text \<open>
  The rotation transformer in the words of the specification, to be compared with
  \<open>calculateLayerRotation\<close>: \<open>pivot\<close> is the unit vector along the face's layer axis
  scaled by \<open>value * (unitSize + gap)\<close>, and \<open>rotate_spec\<close>, for a pivot \<open>pv\<close>,
  moves the position of every cubie whose grid index is in the layer by \<open>- pv\<close>,
  rotates position and grid index, moves the position back by \<open>pv\<close> and composes the
  rotation on the left of the orientation; every other cubie passes through.
\<close>

fun axisUnit :: "axis \<Rightarrow> Vector3" where
  "axisUnit AxisX = Vector3 1 0 0"
| "axisUnit AxisY = Vector3 0 1 0"
| "axisUnit AxisZ = Vector3 0 0 1"

definition pivot :: "variant \<Rightarrow> face \<Rightarrow> Vector3" where
  "pivot V f =
     multiplyScalar (axisUnit (fst (LAYER_INDICES f)))
       (snd (LAYER_INDICES f) * (CUBE_SIZE + CUBE_GAP V))"

definition rotate_spec ::
  "Vector3 \<Rightarrow> variant \<Rightarrow> CubiePosition list \<Rightarrow> face \<Rightarrow> real \<Rightarrow> CubiePosition list" where
  "rotate_spec pv V cubies f angle =
     map (\<lambda>c.
        if \<bar>getComponent (indices c) (fst (LAYER_INDICES f)) - snd (LAYER_INDICES f)\<bar> < EPSILON V
        then c \<lparr> position :=
                   v_add (applyAxisAngle (v_sub (position c) pv) (ROTATION_AXES f)
                            (angle * ROTATION_DIRECTIONS V f)) pv,
                 indices := applyAxisAngle (indices c) (ROTATION_AXES f)
                              (angle * ROTATION_DIRECTIONS V f),
                 quaternion := multiplyQuaternions
                    (setFromAxisAngle (ROTATION_AXES f) (angle * ROTATION_DIRECTIONS V f))
                    (quaternion c) \<rparr>
        else c) cubies"

text \<open>The face across the cube.\<close>

fun opposite :: "face \<Rightarrow> face" where
  "opposite RIGHT = LEFT"
| "opposite LEFT = RIGHT"
| "opposite TOP = BOTTOM"
| "opposite BOTTOM = TOP"
| "opposite FRONT = BACK"
| "opposite BACK = FRONT"

text \<open>The grid indices of the solved cube, and the grid states whose indices are a
  permutation of them.\<close>

definition solvedIndices :: "Vector3 list" where
  "solvedIndices =
     map (\<lambda>(x, y, z). Vector3 (of_int x) (of_int y) (of_int z)) getTargetPositions"

definition validGrid :: "CubiePosition list \<Rightarrow> bool" where
  "validGrid cubies = (mset (map indices cubies) = mset solvedIndices)"

text \<open>
  A quarter turn in closed form: \<open>quarter V f\<close> is the rotation by 90 degrees times
  the direction of \<open>f\<close> about the axis of \<open>f\<close> (lemma \<open>applyAxisAngle_quarter\<close>), and
  \<open>turnIndex V f\<close> is what \<open>rotateLayer\<close> does to one grid index (lemma
  \<open>indices_rotateLayer\<close>).
\<close>

definition turnSign :: "variant \<Rightarrow> face \<Rightarrow> real" where
  "turnSign V f = (case V of Main \<Rightarrow> 1 | Overshoot \<Rightarrow> snd (LAYER_INDICES f))"

definition quarter :: "variant \<Rightarrow> face \<Rightarrow> Vector3 \<Rightarrow> Vector3" where
  "quarter V f v =
     (case fst (LAYER_INDICES f) of
        AxisX \<Rightarrow> Vector3 (vx v) (- turnSign V f * vz v) (turnSign V f * vy v)
      | AxisY \<Rightarrow> Vector3 (turnSign V f * vz v) (vy v) (- turnSign V f * vx v)
      | AxisZ \<Rightarrow> Vector3 (- turnSign V f * vy v) (turnSign V f * vx v) (vz v))"

definition turnIndex :: "variant \<Rightarrow> face \<Rightarrow> Vector3 \<Rightarrow> Vector3" where
  "turnIndex V f idx = snapToGrid V (if inLayer V f idx then quarter V f idx else idx)"

text \<open>Vectors with integer components; four committed turns of one face; vectors with
  components in \<open>{-1, 0, 1}\<close>; cubies whose position is the grid index.\<close>

definition integralVec :: "Vector3 \<Rightarrow> bool" where
  "integralVec v = (vx v \<in> \<int> \<and> vy v \<in> \<int> \<and> vz v \<in> \<int>)"

definition fourTurns :: "variant \<Rightarrow> face \<Rightarrow> CubiePosition list \<Rightarrow> CubiePosition list" where
  "fourTurns V f cubies =
     rotateLayer V (rotateLayer V (rotateLayer V (rotateLayer V cubies f) f) f) f"

definition unitVec :: "Vector3 \<Rightarrow> bool" where
  "unitVec v = ((vx v = - 1 \<or> vx v = 0 \<or> vx v = 1) \<and> (vy v = - 1 \<or> vy v = 0 \<or> vy v = 1)
     \<and> (vz v = - 1 \<or> vz v = 0 \<or> vz v = 1))"


section \<open>Grid snapper\<close>

lemma snapToGrid_snapc:
  "snapToGrid V v =
     Vector3 (snapc (EPSILON V) (vx v)) (snapc (EPSILON V) (vy v)) (snapc (EPSILON V) (vz v))"
  by (simp add: snapToGrid_def snapc_def)

lemma EPSILON_bounds: "0 < EPSILON V" "EPSILON V < 1 / 2"
  by (cases V; simp add: EPSILON_def)+

lemma Math_round_of_int: "Math_round (of_int n) = of_int n"
proof -
  have "\<lfloor>(of_int n :: real) + 1 / 2\<rfloor> = n" by linarith
  then show ?thesis by (simp add: Math_round_def)
qed

lemma snapc_int:
  assumes "c \<in> \<int>" and "eps \<le> 1"
  shows "snapc eps c = c"
proof -
  from assms(1) obtain n :: int where c: "c = of_int n" by (auto elim: Ints_cases)
  have abs: "\<bar>c\<bar> = of_int \<bar>n\<bar>" by (simp add: c)
  show ?thesis
  proof (cases "\<bar>c\<bar> < eps")
    case True
    with assms(2) have "\<bar>n\<bar> < 1" unfolding abs by linarith
    then have "n = 0" by simp
    then show ?thesis by (simp add: snapc_def c)
  next
    case False
    have "sgn c * Math_round \<bar>c\<bar> = sgn c * \<bar>c\<bar>"
      unfolding abs Math_round_of_int ..
    also have "\<dots> = c" by (simp add: sgn_mult_abs)
    finally show ?thesis using False by (simp add: snapc_def)
  qed
qed

lemma snapc_in_Ints: "snapc eps c \<in> \<int>"
proof -
  have "sgn c \<in> \<int>" by (simp add: sgn_real_def)
  then show ?thesis by (simp add: snapc_def Math_round_def)
qed

text \<open>
  The snap absorbs drift: a component less than a half away from an integer is snapped
  to that integer.
\<close>

lemma snapc_near_int:
  assumes "\<bar>c - of_int n\<bar> < 1 / 2" and "eps \<le> 1 / 2"
  shows "snapc eps c = of_int n"
proof (cases "\<bar>c\<bar> < eps")
  case True
  then have "\<bar>(of_int n :: real)\<bar> < 1" using assms by linarith
  then have "\<bar>n\<bar> < 1" by linarith
  then have "n = 0" by simp
  then show ?thesis using True by (simp add: snapc_def)
next
  case False
  consider "n = 0" | "0 < n" | "n < 0" by linarith
  then show ?thesis
  proof cases
    case 1
    then have "\<lfloor>\<bar>c\<bar> + 1 / 2\<rfloor> = 0" using assms(1) by (simp add: floor_eq_iff; linarith?)
    then show ?thesis using False 1 by (simp add: snapc_def Math_round_def)
  next
    case 2
    then have n: "(1::real) \<le> of_int n" by linarith
    then have pos: "0 < c" using assms(1) by linarith
    have "\<lfloor>\<bar>c\<bar> + 1 / 2\<rfloor> = n" using assms(1) pos by (simp add: floor_eq_iff; linarith?)
    then show ?thesis using False pos by (simp add: snapc_def Math_round_def)
  next
    case 3
    then have n: "of_int n \<le> (- 1::real)" by linarith
    then have neg: "c < 0" using assms(1) by linarith
    have "\<lfloor>\<bar>c\<bar> + 1 / 2\<rfloor> = - n" using assms(1) neg by (simp add: floor_eq_iff; linarith?)
    then show ?thesis using False neg by (simp add: snapc_def Math_round_def)
  qed
qed

text \<open>
  Claim C8. \<open>snapToGrid\<close> works on each component on its own: a component whose absolute
  value is below \<open>EPSILON\<close> becomes 0, any other \<open>c\<close> becomes
  \<open>sign(c) * round(abs(c))\<close>. It is idempotent, and it is the identity on every vector
  whose three components are integers. This holds in both variants.
\<close>

theorem snapToGrid_rounds_idempotent:
  "vx (snapToGrid V v) = (if \<bar>vx v\<bar> < EPSILON V then 0 else sgn (vx v) * Math_round \<bar>vx v\<bar>)
   \<and> vy (snapToGrid V v) = (if \<bar>vy v\<bar> < EPSILON V then 0 else sgn (vy v) * Math_round \<bar>vy v\<bar>)
   \<and> vz (snapToGrid V v) = (if \<bar>vz v\<bar> < EPSILON V then 0 else sgn (vz v) * Math_round \<bar>vz v\<bar>)
   \<and> snapToGrid V (snapToGrid V v) = snapToGrid V v
   \<and> (vx v \<in> \<int> \<and> vy v \<in> \<int> \<and> vz v \<in> \<int> \<longrightarrow> snapToGrid V v = v)"
proof -
  have le: "EPSILON V \<le> 1" using EPSILON_bounds(2) [of V] by simp
  have comps: "vx (snapToGrid V v) = snapc (EPSILON V) (vx v)"
    "vy (snapToGrid V v) = snapc (EPSILON V) (vy v)"
    "vz (snapToGrid V v) = snapc (EPSILON V) (vz v)"
    by (simp_all add: snapToGrid_snapc)
  have idem: "snapToGrid V (snapToGrid V v) = snapToGrid V v"
    unfolding snapToGrid_snapc [of V "snapToGrid V v"] comps
    by (simp add: snapToGrid_snapc snapc_int [OF snapc_in_Ints le])
  have ident: "snapToGrid V v = v" if "vx v \<in> \<int>" "vy v \<in> \<int>" "vz v \<in> \<int>"
    using that by (cases v) (simp add: snapToGrid_snapc snapc_int [OF _ le])
  show ?thesis
    using idem ident by (simp add: comps snapc_def)
qed

theorem snapToGrid_rounds_idempotent_witness:
  "snapToGrid Main (Vector3 1 (- 1) 0) = Vector3 1 (- 1) 0
   \<and> snapToGrid Main (snapToGrid Main (Vector3 (3 / 5) (- 12 / 5) 0))
       = snapToGrid Main (Vector3 (3 / 5) (- 12 / 5) 0)"
  using snapToGrid_rounds_idempotent [of Main "Vector3 1 (- 1) 0"]
    snapToGrid_rounds_idempotent [of Main "Vector3 (3 / 5) (- 12 / 5) 0"]
  by simp

section \<open>Rotations about the coordinate axes\<close>

lemma ROTATION_AXES_simps:
  "ROTATION_AXES TOP = Vector3 0 1 0"
  "ROTATION_AXES RIGHT = Vector3 1 0 0"
  "ROTATION_AXES BOTTOM = Vector3 0 (- 1) 0"
  "ROTATION_AXES LEFT = Vector3 (- 1) 0 0"
  "ROTATION_AXES FRONT = Vector3 0 0 1"
  "ROTATION_AXES BACK = Vector3 0 0 (- 1)"
  by (simp_all add: ROTATION_AXES_def normalize_def v_length_def multiplyScalar_def)

lemma half_angle:
  "cos (a::real) = 1 - 2 * (sin (a / 2) * sin (a / 2))"
  "sin a = 2 * (sin (a / 2) * cos (a / 2))"
  using cos_double_sin [of "a / 2"] sin_double [of "a / 2"]
  by (simp_all add: power2_eq_square)

lemma unit_cases: "u * u = (1::real) \<Longrightarrow> u = 1 \<or> u = - 1"
  by (simp add: square_eq_1_iff)

lemma applyAxisAngle_X:
  assumes "u * u = 1"
  shows "applyAxisAngle (Vector3 x y z) (Vector3 u 0 0) a =
     Vector3 x (y * cos a - u * z * sin a) (u * y * sin a + z * cos a)"
  using unit_cases [OF assms]
  by (auto simp: applyAxisAngle_def applyQuaternion_def setFromAxisAngle_def Let_def
      half_angle [of a] algebra_simps)

lemma applyAxisAngle_Y:
  assumes "u * u = 1"
  shows "applyAxisAngle (Vector3 x y z) (Vector3 0 u 0) a =
     Vector3 (x * cos a + u * z * sin a) y (z * cos a - u * x * sin a)"
  using unit_cases [OF assms]
  by (auto simp: applyAxisAngle_def applyQuaternion_def setFromAxisAngle_def Let_def
      half_angle [of a] algebra_simps)

lemma applyAxisAngle_Z:
  assumes "u * u = 1"
  shows "applyAxisAngle (Vector3 x y z) (Vector3 0 0 u) a =
     Vector3 (x * cos a - u * y * sin a) (u * x * sin a + y * cos a) z"
  using unit_cases [OF assms]
  by (auto simp: applyAxisAngle_def applyQuaternion_def setFromAxisAngle_def Let_def
      half_angle [of a] algebra_simps)

section \<open>Layer selector and rotation transformer\<close>

lemma layer_filter_enumerate:
  "filter (\<lambda>i. i \<noteq> - 1) (map (\<lambda>(i, c). if P c then int i else - 1) (enumerate n xs))
   = map (\<lambda>p. int (fst p)) (filter (\<lambda>p. P (snd p)) (enumerate n xs))"
  by (induction xs arbitrary: n) auto

lemma getCubiesInLayer_eq:
  "getCubiesInLayer V cs f =
     map (\<lambda>p. int (fst p)) (filter (\<lambda>p. inLayer V f (indices (snd p))) (enumerate 0 cs))"
  unfolding getCubiesInLayer_def inLayer_def
  by (simp add: case_prod_beta) (rule layer_filter_enumerate)

lemma length_filter_enumerate:
  "length (filter (\<lambda>p. P (snd p)) (enumerate n xs)) = length (filter P xs)"
  by (induction xs arbitrary: n) auto

lemma length_getCubiesInLayer:
  "length (getCubiesInLayer V cs f) = length (filter (inLayer V f) (map indices cs))"
  by (simp add: getCubiesInLayer_eq length_filter_enumerate [where P = "\<lambda>c. inLayer V f (indices c)"]
      filter_map comp_def)

lemma distinct_getCubiesInLayer: "distinct (getCubiesInLayer V cs f)"
proof -
  have "distinct (map fst (filter (\<lambda>p. inLayer V f (indices (snd p))) (enumerate 0 cs)))"
    by (rule distinct_map_filter) simp
  then have "distinct (map int (map fst (filter (\<lambda>p. inLayer V f (indices (snd p))) (enumerate 0 cs))))"
    by (simp add: distinct_map inj_on_def del: map_map)
  then show ?thesis by (simp add: getCubiesInLayer_eq comp_def)
qed

lemma in_getCubiesInLayer:
  "int i \<in> set (getCubiesInLayer V cs f) \<longleftrightarrow> i < length cs \<and> inLayer V f (indices (cs ! i))"
  by (auto simp: getCubiesInLayer_eq in_set_enumerate_eq image_iff)

lemma set_getCubiesInLayer:
  "set (getCubiesInLayer V cs f) = int ` {i. i < length cs \<and> inLayer V f (indices (cs ! i))}"
  by (auto simp: getCubiesInLayer_eq in_set_enumerate_eq image_iff)

lemma map_enumerate_index:
  assumes "\<And>i. i < length xs \<Longrightarrow> F (i, xs ! i) = G (xs ! i)"
  shows "map F (enumerate 0 xs) = map G xs"
  by (rule nth_equalityI) (simp_all add: nth_enumerate_eq assms)

lemma calculateLayerRotation_map:
  "calculateLayerRotation V cs f angle =
     map (\<lambda>c. if inLayer V f (indices c) then rotateCubie V f angle c else c) cs"
  unfolding calculateLayerRotation_def Let_def
  by (rule map_enumerate_index) (simp add: in_getCubiesInLayer rotateCubie_def)

lemma getFaceCenter_pivot: "getFaceCenter V f = pivot V f"
  by (cases f) (simp_all add: getFaceCenter_def pivot_def LAYER_INDICES_def multiplyScalar_def)

lemma pivot_on_axis:
  "v_add (applyAxisAngle (v_sub p (multiplyScalar (ROTATION_AXES f) k)) (ROTATION_AXES f) a)
         (multiplyScalar (ROTATION_AXES f) k)
   = applyAxisAngle p (ROTATION_AXES f) a"
  by (cases p; cases f)
     (simp_all add: ROTATION_AXES_simps multiplyScalar_def v_sub_def v_add_def
        applyAxisAngle_X [of 1, simplified] applyAxisAngle_X [of "- 1", simplified]
        applyAxisAngle_Y [of 1, simplified] applyAxisAngle_Y [of "- 1", simplified]
        applyAxisAngle_Z [of 1, simplified] applyAxisAngle_Z [of "- 1", simplified])

lemma pivot_multiple: "pivot V f = multiplyScalar (ROTATION_AXES f) \<bar>snd (LAYER_INDICES f) * (CUBE_SIZE + CUBE_GAP V)\<bar>"
  by (cases f; cases V)
    (simp_all add: pivot_def LAYER_INDICES_def ROTATION_AXES_simps multiplyScalar_def CUBE_SIZE_def CUBE_GAP_def)

text \<open>
  Claim C3. For every cubie list, face and angle, \<open>calculateLayerRotation\<close> is the
  function \<open>rotate_spec\<close> written from the specification: every cubie whose
  grid index lies in the layer of the face has its position moved by the negative of the
  pivot, rotated and moved back, its grid index rotated, and the rotation composed on the
  left of its orientation; every other cubie is returned as it is. The pivot is the unit
  vector of the layer's coordinate axis scaled by \<open>value * (CUBE_SIZE + CUBE_GAP)\<close>; the
  result is the same when the signed axis \<open>ROTATION_AXES\<close> is scaled instead, since both
  points lie on the rotation axis. The result has one entry per input cubie. The input
  list is a value of the model and cannot be changed by the call.
\<close>

theorem calculateLayerRotation_spec:
  "calculateLayerRotation V cubies f angle = rotate_spec (pivot V f) V cubies f angle
   \<and> calculateLayerRotation V cubies f angle =
       rotate_spec (multiplyScalar (ROTATION_AXES f) (snd (LAYER_INDICES f) * (CUBE_SIZE + CUBE_GAP V)))
         V cubies f angle
   \<and> length (calculateLayerRotation V cubies f angle) = length cubies"
proof -
  have 1: "calculateLayerRotation V cubies f angle = rotate_spec (pivot V f) V cubies f angle"
    by (simp add: calculateLayerRotation_map rotate_spec_def rotateCubie_def inLayer_def
        getFaceCenter_pivot premultiply_def)
  have 2: "rotate_spec (pivot V f) V cubies f angle =
     rotate_spec (multiplyScalar (ROTATION_AXES f) (snd (LAYER_INDICES f) * (CUBE_SIZE + CUBE_GAP V)))
         V cubies f angle"
    unfolding rotate_spec_def pivot_multiple pivot_on_axis ..
  show ?thesis using 1 2 by (simp add: rotate_spec_def)
qed

lemmas rot_basis =
  applyAxisAngle_X [of 1, simplified] applyAxisAngle_X [of "- 1", simplified]
  applyAxisAngle_Y [of 1, simplified] applyAxisAngle_Y [of "- 1", simplified]
  applyAxisAngle_Z [of 1, simplified] applyAxisAngle_Z [of "- 1", simplified]

text \<open>
  Claim C10. In the main variant the stored axis of a face times its direction sign is
  one of the positive unit vectors, rotating about the stored axis by
  \<open>angle * direction\<close> is rotating about that positive axis by \<open>angle\<close>, and so a
  face and its opposite apply the same rotation (to vectors and as a quaternion) for the
  same angle; their layers lie on the same coordinate axis at opposite values.
\<close>

theorem main_rotation_about_positive_axis:
  "multiplyScalar (ROTATION_AXES f) (ROTATION_DIRECTIONS Main f)
     \<in> {Vector3 1 0 0, Vector3 0 1 0, Vector3 0 0 1}
   \<and> applyAxisAngle v (ROTATION_AXES f) (angle * ROTATION_DIRECTIONS Main f)
       = applyAxisAngle v (multiplyScalar (ROTATION_AXES f) (ROTATION_DIRECTIONS Main f)) angle
   \<and> setFromAxisAngle (ROTATION_AXES f) (angle * ROTATION_DIRECTIONS Main f)
       = setFromAxisAngle (multiplyScalar (ROTATION_AXES f) (ROTATION_DIRECTIONS Main f)) angle
   \<and> applyAxisAngle v (ROTATION_AXES (opposite f)) (angle * ROTATION_DIRECTIONS Main (opposite f))
       = applyAxisAngle v (ROTATION_AXES f) (angle * ROTATION_DIRECTIONS Main f)
   \<and> setFromAxisAngle (ROTATION_AXES (opposite f)) (angle * ROTATION_DIRECTIONS Main (opposite f))
       = setFromAxisAngle (ROTATION_AXES f) (angle * ROTATION_DIRECTIONS Main f)
   \<and> fst (LAYER_INDICES (opposite f)) = fst (LAYER_INDICES f)
   \<and> snd (LAYER_INDICES (opposite f)) = - snd (LAYER_INDICES f)"
  by (cases v; cases f)
     (simp_all add: ROTATION_AXES_simps ROTATION_DIRECTIONS_def multiplyScalar_def rot_basis
        setFromAxisAngle_def LAYER_INDICES_def Let_def)

lemma solvedIndices_eval:
  "solvedIndices =
    [Vector3 (- 1) (- 1) (- 1), Vector3 (- 1) (- 1) 0, Vector3 (- 1) (- 1) 1,
     Vector3 (- 1) 0 (- 1), Vector3 (- 1) 0 0, Vector3 (- 1) 0 1,
     Vector3 (- 1) 1 (- 1), Vector3 (- 1) 1 0, Vector3 (- 1) 1 1,
     Vector3 0 (- 1) (- 1), Vector3 0 (- 1) 0, Vector3 0 (- 1) 1,
     Vector3 0 0 (- 1), Vector3 0 0 1,
     Vector3 0 1 (- 1), Vector3 0 1 0, Vector3 0 1 1,
     Vector3 1 (- 1) (- 1), Vector3 1 (- 1) 0, Vector3 1 (- 1) 1,
     Vector3 1 0 (- 1), Vector3 1 0 0, Vector3 1 0 1,
     Vector3 1 1 (- 1), Vector3 1 1 0, Vector3 1 1 1]"
  by (simp add: solvedIndices_def getTargetPositions_def)

lemma indices_initial: "map indices (initialCubiePositions V) = solvedIndices"
  by (simp add: initialCubiePositions_def solvedIndices_def initialCubie_def comp_def
      case_prod_beta Let_def)

lemma validGrid_initial: "validGrid (initialCubiePositions V)"
  by (simp add: validGrid_def indices_initial)

lemma solved_layer_size: "length (filter (inLayer V f) solvedIndices) = 9"
  by (cases V; cases f)
     (simp_all add: solvedIndices_eval inLayer_def LAYER_INDICES_def EPSILON_def)

lemma validGrid_layer_size:
  assumes "validGrid cubies"
  shows "length (getCubiesInLayer V cubies f) = 9"
proof -
  have "length (getCubiesInLayer V cubies f) = size (filter_mset (inLayer V f) (mset (map indices cubies)))"
    by (simp only: length_getCubiesInLayer mset_filter [symmetric] size_mset)
  also have "\<dots> = size (filter_mset (inLayer V f) (mset solvedIndices))"
    using assms by (simp add: validGrid_def)
  also have "\<dots> = 9"
    using solved_layer_size [of V f] by (simp only: mset_filter [symmetric] size_mset)
  finally show ?thesis .
qed

text \<open>
  Claim C4. On a valid grid state (the grid indices are a permutation of the 26 lattice
  points of the solved cube) \<open>getCubiesInLayer\<close> returns, for each face, 9 distinct
  indices of cubies of the list, and the six layer sizes add up to 54.
\<close>

theorem getCubiesInLayer_nine:
  assumes "validGrid cubies"
  shows "length (getCubiesInLayer V cubies f) = 9
    \<and> distinct (getCubiesInLayer V cubies f)
    \<and> set (getCubiesInLayer V cubies f) \<subseteq> int ` {i. i < length cubies}
    \<and> sum_list (map (\<lambda>g. length (getCubiesInLayer V cubies g))
          [TOP, BOTTOM, LEFT, RIGHT, FRONT, BACK]) = 54"
  using assms
  by (auto simp: validGrid_layer_size distinct_getCubiesInLayer set_getCubiesInLayer)

theorem getCubiesInLayer_nine_witness:
  "length (getCubiesInLayer Main (initialCubiePositions Main) RIGHT) = 9
   \<and> distinct (getCubiesInLayer Main (initialCubiePositions Main) RIGHT)
   \<and> sum_list (map (\<lambda>g. length (getCubiesInLayer Main (initialCubiePositions Main) g))
          [TOP, BOTTOM, LEFT, RIGHT, FRONT, BACK]) = 54"
  using getCubiesInLayer_nine [OF validGrid_initial [of Main], where V = Main and f = RIGHT] by simp

section \<open>Committed quarter turns\<close>

lemma applyAxisAngle_quarter:
  "applyAxisAngle v (ROTATION_AXES f) (pi / 2 * ROTATION_DIRECTIONS V f) = quarter V f v"
  by (cases v; cases f; cases V)
     (simp_all add: ROTATION_AXES_simps ROTATION_DIRECTIONS_def rot_basis quarter_def
        turnSign_def LAYER_INDICES_def)

lemma rotateLayer_map:
  "rotateLayer V cs f =
     map (\<lambda>c. (case V of
                  Main \<Rightarrow> \<lambda>c. c \<lparr> position := snapToGrid V (position c),
                                  indices := snapToGrid V (indices c) \<rparr>
                | Overshoot \<Rightarrow> \<lambda>c. c \<lparr> indices := snapToGrid V (indices c) \<rparr>)
               (if inLayer V f (indices c) then rotateCubie V f (pi / 2) c else c)) cs"
  by (cases V) (simp_all add: rotateLayer_def calculateLayerRotation_map Let_def comp_def)

lemma indices_rotateLayer:
  "map indices (rotateLayer V cs f) = map (turnIndex V f) (map indices cs)"
  by (cases V)
     (simp_all add: rotateLayer_map comp_def turnIndex_def rotateCubie_def
        applyAxisAngle_quarter [simplified] if_distrib [of indices] if_distrib [of "snapToGrid V"] cong: if_cong)

lemma length_rotateLayer: "length (rotateLayer V cs f) = length cs"
  by (simp add: rotateLayer_map)

lemma inLayer_component:
  "inLayer V f v \<longleftrightarrow> \<bar>getComponent v (fst (LAYER_INDICES f)) - snd (LAYER_INDICES f)\<bar> < EPSILON V"
  by (simp add: inLayer_def)

lemma quarter_component:
  "getComponent (quarter V f v) (fst (LAYER_INDICES f)) = getComponent v (fst (LAYER_INDICES f))"
  by (cases f) (simp_all add: quarter_def LAYER_INDICES_def)

lemma inLayer_quarter: "inLayer V f (quarter V f v) = inLayer V f v"
  by (simp add: inLayer_def quarter_component)

lemma turnSign_cases: "turnSign V f = 1 \<or> turnSign V f = - 1"
  by (cases V; cases f) (simp_all add: turnSign_def LAYER_INDICES_def)

lemma quarter_integral: "integralVec v \<Longrightarrow> integralVec (quarter V f v)"
  using turnSign_cases [of V f]
  by (cases "fst (LAYER_INDICES f)") (auto simp: integralVec_def quarter_def)

lemma quarter4: "quarter V f (quarter V f (quarter V f (quarter V f v))) = v"
  using turnSign_cases [of V f]
  by (cases "fst (LAYER_INDICES f)") (auto simp: quarter_def)

lemma snapToGrid_integral: "integralVec v \<Longrightarrow> snapToGrid V v = v"
  using EPSILON_bounds(2) [of V]
  by (cases v) (simp add: integralVec_def snapToGrid_snapc snapc_int)

lemma turnIndex_integral:
  assumes "integralVec v"
  shows "turnIndex V f v = (if inLayer V f v then quarter V f v else v)"
    and "integralVec (turnIndex V f v)"
    and "inLayer V f (turnIndex V f v) = inLayer V f v"
  using assms by (simp_all add: turnIndex_def snapToGrid_integral quarter_integral inLayer_quarter)

lemma turnIndex4:
  assumes "integralVec v"
  shows "turnIndex V f (turnIndex V f (turnIndex V f (turnIndex V f v))) = v"
proof (cases "inLayer V f v")
  case True
  have 1: "turnIndex V f v = quarter V f v" "integralVec (quarter V f v)" "inLayer V f (quarter V f v)"
    using assms True by (simp_all add: turnIndex_integral quarter_integral inLayer_quarter)
  have 2: "turnIndex V f (quarter V f v) = quarter V f (quarter V f v)"
    "integralVec (quarter V f (quarter V f v))" "inLayer V f (quarter V f (quarter V f v))"
    using 1 by (simp_all add: turnIndex_integral quarter_integral inLayer_quarter)
  have 3: "turnIndex V f (quarter V f (quarter V f v)) = quarter V f (quarter V f (quarter V f v))"
    "integralVec (quarter V f (quarter V f (quarter V f v)))" "inLayer V f (quarter V f (quarter V f (quarter V f v)))"
    using 2 by (simp_all add: turnIndex_integral quarter_integral inLayer_quarter)
  have 4: "turnIndex V f (quarter V f (quarter V f (quarter V f v))) = quarter V f (quarter V f (quarter V f (quarter V f v)))"
    using 3 by (simp add: turnIndex_integral)
  show ?thesis by (simp only: 1 2 3 4 quarter4)
next
  case False
  then have "turnIndex V f v = v" using assms by (simp add: turnIndex_integral)
  then show ?thesis by simp
qed

text \<open>
  Claim C5. Four committed quarter turns of the same face (\<open>rotateLayer\<close> applied four
  times) give every cubie its grid index back, on every grid state whose grid indices
  are integer-valued, as they are at every frame boundary; in both variants.
\<close>

theorem four_turns_restore_indices:
  assumes "\<forall>c \<in> set cubies. integralVec (indices c)"
  shows "map indices (fourTurns V f cubies) = map indices cubies"
  using assms
  by (simp add: fourTurns_def indices_rotateLayer turnIndex4)

lemma integral_solved: "v \<in> set solvedIndices \<Longrightarrow> integralVec v"
  by (auto simp: solvedIndices_eval integralVec_def)

theorem four_turns_restore_indices_witness:
  "map indices (fourTurns Main RIGHT (initialCubiePositions Main))
     = map indices (initialCubiePositions Main)
   \<and> map indices (fourTurns Overshoot LEFT (initialCubiePositions Overshoot))
     = map indices (initialCubiePositions Overshoot)"
proof -
  have "\<forall>c \<in> set (initialCubiePositions V). integralVec (indices c)" for V
  proof
    fix c assume "c \<in> set (initialCubiePositions V)"
    then have "indices c \<in> set (map indices (initialCubiePositions V))" by simp
    then show "integralVec (indices c)"
      unfolding indices_initial by (rule integral_solved)
  qed
  then show ?thesis
    using four_turns_restore_indices [of "initialCubiePositions Main" Main RIGHT]
      four_turns_restore_indices [of "initialCubiePositions Overshoot" Overshoot LEFT]
    by blast
qed

lemma distinct_solved: "distinct solvedIndices"
  by (simp add: solvedIndices_eval)

lemma solved_unit: "v \<in> set solvedIndices \<Longrightarrow> unitVec v \<and> v \<noteq> Vector3 0 0 0"
proof -
  have "\<forall>w \<in> set solvedIndices. unitVec w \<and> w \<noteq> Vector3 0 0 0"
    by (simp add: solvedIndices_eval unitVec_def)
  then show "v \<in> set solvedIndices \<Longrightarrow> unitVec v \<and> v \<noteq> Vector3 0 0 0" by blast
qed

lemma unit_solved:
  assumes "unitVec v" "v \<noteq> Vector3 0 0 0"
  shows "v \<in> set solvedIndices"
proof (cases v)
  case (Vector3 x y z)
  have x: "x = - 1 \<or> x = 0 \<or> x = 1" and y: "y = - 1 \<or> y = 0 \<or> y = 1"
    and z: "z = - 1 \<or> z = 0 \<or> z = 1" and nz: "\<not> (x = 0 \<and> y = 0 \<and> z = 0)"
    using assms by (simp_all add: unitVec_def Vector3)
  show ?thesis
    unfolding Vector3 solvedIndices_eval
    using x y z nz by (elim disjE) simp_all
qed

lemma unitVec_integral: "unitVec v \<Longrightarrow> integralVec v"
  by (auto simp: unitVec_def integralVec_def)

lemma quarter_unit: "unitVec v \<Longrightarrow> unitVec (quarter V f v)"
  using turnSign_cases [of V f]
  by (cases "fst (LAYER_INDICES f)") (auto simp: unitVec_def quarter_def)

lemma quarter_zero: "quarter V f v = Vector3 0 0 0 \<longleftrightarrow> v = Vector3 0 0 0"
  using turnSign_cases [of V f]
  by (cases v; cases "fst (LAYER_INDICES f)") (auto simp: quarter_def)

lemma turnIndex_solved:
  assumes "v \<in> set solvedIndices"
  shows "turnIndex V f v \<in> set solvedIndices"
proof -
  have u: "unitVec v" and nz: "v \<noteq> Vector3 0 0 0"
    using solved_unit [OF assms] by simp_all
  have "turnIndex V f v = (if inLayer V f v then quarter V f v else v)"
    using u by (simp add: turnIndex_integral(1) unitVec_integral)
  then show ?thesis
    using u nz assms by (auto intro!: unit_solved simp: quarter_unit quarter_zero)
qed

lemma turnIndex_inj_solved: "inj_on (turnIndex V f) (set solvedIndices)"
proof (rule inj_on_inverseI)
  fix v assume "v \<in> set solvedIndices"
  then have "integralVec v" by (rule integral_solved)
  then show "(turnIndex V f \<circ> turnIndex V f \<circ> turnIndex V f) (turnIndex V f v) = v"
    by (simp add: turnIndex4)
qed

lemma turn_solved_mset: "mset (map (turnIndex V f) solvedIndices) = mset solvedIndices"
proof -
  have sub: "turnIndex V f ` set solvedIndices \<subseteq> set solvedIndices"
    using turnIndex_solved by blast
  have "turnIndex V f ` set solvedIndices = set solvedIndices"
    by (rule endo_inj_surj [OF _ sub turnIndex_inj_solved]) simp
  then have s: "set (map (turnIndex V f) solvedIndices) = set solvedIndices"
    by simp
  have d: "distinct (map (turnIndex V f) solvedIndices)"
    by (simp add: distinct_map distinct_solved turnIndex_inj_solved)
  show ?thesis
    using set_eq_iff_mset_eq_distinct [OF d distinct_solved] s by blast
qed

lemma validGrid_rotateLayer:
  assumes "validGrid cubies"
  shows "validGrid (rotateLayer V cubies f)"
proof -
  have "mset (map indices (rotateLayer V cubies f))
      = image_mset (turnIndex V f) (mset (map indices cubies))"
    by (simp only: indices_rotateLayer mset_map)
  also have "\<dots> = image_mset (turnIndex V f) (mset solvedIndices)"
    using assms by (simp only: validGrid_def)
  also have "\<dots> = mset solvedIndices"
    using turn_solved_mset [of V f] by (simp only: mset_map)
  finally show ?thesis by (simp only: validGrid_def)
qed

lemma validGrid_foldl:
  "validGrid cubies \<Longrightarrow> validGrid (foldl (rotateLayer V) cubies faces)"
  by (induction faces arbitrary: cubies) (simp_all add: validGrid_rotateLayer)

lemma length_foldl_rotateLayer:
  "length (foldl (rotateLayer V) cubies faces) = length cubies"
  by (induction faces arbitrary: cubies) (simp_all add: length_rotateLayer)

lemma set_solved:
  "set solvedIndices =
     {v. vx v \<in> {- 1, 0, 1} \<and> vy v \<in> {- 1, 0, 1} \<and> vz v \<in> {- 1, 0, 1} \<and> v \<noteq> Vector3 0 0 0}"
proof (rule set_eqI)
  fix v
  have "v \<in> set solvedIndices \<longleftrightarrow> unitVec v \<and> v \<noteq> Vector3 0 0 0"
    using solved_unit unit_solved by blast
  then show "v \<in> set solvedIndices \<longleftrightarrow>
    v \<in> {v. vx v \<in> {- 1, 0, 1} \<and> vy v \<in> {- 1, 0, 1} \<and> vz v \<in> {- 1, 0, 1} \<and> v \<noteq> Vector3 0 0 0}"
    by (simp add: unitVec_def)
qed

text \<open>
  Claim C1. From the solved configuration, after any finite sequence of committed quarter
  turns (\<open>rotateLayer\<close> for any faces, in both variants), the multiset of the grid
  indices of the 26 cubies is the multiset of the solved cube: the 26 distinct vectors
  with components in \<open>{-1, 0, 1}\<close> other than the origin. In particular the grid
  indices are pairwise distinct.
\<close>

theorem grid_indices_permutation_invariant:
  "mset (map indices (foldl (rotateLayer V) (initialCubiePositions V) faces)) = mset solvedIndices
   \<and> distinct (map indices (foldl (rotateLayer V) (initialCubiePositions V) faces))
   \<and> length (foldl (rotateLayer V) (initialCubiePositions V) faces) = 26
   \<and> set solvedIndices =
       {v. vx v \<in> {- 1, 0, 1} \<and> vy v \<in> {- 1, 0, 1} \<and> vz v \<in> {- 1, 0, 1}
           \<and> v \<noteq> Vector3 0 0 0}
   \<and> distinct solvedIndices \<and> length solvedIndices = 26"
proof -
  have v: "validGrid (foldl (rotateLayer V) (initialCubiePositions V) faces)"
    by (rule validGrid_foldl [OF validGrid_initial])
  then have m: "mset (map indices (foldl (rotateLayer V) (initialCubiePositions V) faces)) = mset solvedIndices"
    by (simp only: validGrid_def)
  have d: "distinct (map indices (foldl (rotateLayer V) (initialCubiePositions V) faces))"
    using mset_eq_imp_distinct_iff [OF m] distinct_solved by simp
  have l: "length solvedIndices = 26" by (simp add: solvedIndices_eval)
  have "length (initialCubiePositions V) = 26"
    using l by (simp add: indices_initial [of V, symmetric])
  then have "length (foldl (rotateLayer V) (initialCubiePositions V) faces) = 26"
    by (simp add: length_foldl_rotateLayer)
  then show ?thesis using m d l set_solved distinct_solved by blast
qed

section \<open>Stored positions\<close>











lemma length_initial: "length (initialCubiePositions V) = 26"
  by (simp add: initialCubiePositions_def getTargetPositions_def)


lemma turned_nonempty: "foldl (rotateLayer V) (initialCubiePositions V) faces \<noteq> []"
  using length_foldl_rotateLayer [of V "initialCubiePositions V" faces] length_initial [of V]
  by auto





section \<open>Frame driver\<close>

lemma length_copyToRef: "length (copyToRef src i refs) = length refs"
  by (simp add: copyToRef_def split: option.split)

lemma length_copyToRefs: "length (copyToRefs src idxs refs) = length refs"
  unfolding copyToRefs_def
  by (induction idxs arbitrary: refs) (simp_all add: length_copyToRef)

lemma copyToRef_nth:
  assumes "n < length refs"
  shows "copyToRef src i refs ! n =
     (if i = int n \<and> refs ! n \<noteq> None then Some (toTransform (src ! n)) else refs ! n)"
  using assms by (auto simp: copyToRef_def nth_list_update split: option.split)

lemma copyToRefs_nth:
  assumes "n < length refs"
  shows "copyToRefs src idxs refs ! n =
     (if int n \<in> set idxs \<and> refs ! n \<noteq> None then Some (toTransform (src ! n)) else refs ! n)"
  using assms unfolding copyToRefs_def
proof (induction idxs arbitrary: refs)
  case Nil
  then show ?case by simp
next
  case (Cons i idxs)
  have l: "n < length (copyToRef src i refs)" using Cons.prems by (simp add: length_copyToRef)
  show ?case
    using Cons.IH [OF l] Cons.prems by (auto simp: copyToRef_nth)
qed

lemma groupRef_useFrame_Main:
  "groupRef (useFrame_Main e delta) =
     spinGroup (delta * (cubeRotationSpeed / 2)) (delta * cubeRotationSpeed) (groupRef e)"
  by (simp add: useFrame_Main_def Let_def split: option.split)

lemma groupRef_useFrame_Overshoot:
  "groupRef (useFrame_Overshoot e delta) =
     spinGroup (delta * (5 / 1000)) (delta * (1 / 100)) (groupRef e)"
  by (simp add: useFrame_Overshoot_def Let_def split: option.split prod.split)

lemma useFrame_Main_rotating:
  assumes "isRotating (rotationState e)" "currentFace (rotationState e) = Some f"
    and "progress (rotationState e) + delta / rotationSpeed < 1"
  shows "cubiePositions (useFrame_Main e delta) = cubiePositions e"
    and "rotationState (useFrame_Main e delta) =
      (rotationState e) \<lparr> progress := progress (rotationState e) + delta / rotationSpeed \<rparr>"
    and "cubieRefs (useFrame_Main e delta) =
      copyToRefs (calculateLayerRotation Main (cubiePositions e) f
          (pi / 2 * easeInOutCubic (min (progress (rotationState e) + delta / rotationSpeed) 1)))
        (getCubiesInLayer Main (cubiePositions e) f) (cubieRefs e)"
    and "timeouts (useFrame_Main e delta) = timeouts e"
  using assms by (simp_all add: useFrame_Main_def Let_def)

lemma useFrame_Main_commit:
  assumes "isRotating (rotationState e)" "currentFace (rotationState e) = Some f"
    and "1 \<le> progress (rotationState e) + delta / rotationSpeed"
  shows "cubiePositions (useFrame_Main e delta) = rotateLayer Main (cubiePositions e) f"
    and "rotationState (useFrame_Main e delta) =
      (rotationState e) \<lparr> isRotating := False, inRotationPause := True, progress := 0 \<rparr>"
  using assms by (simp_all add: useFrame_Main_def Let_def)

lemma useFrame_Main_idle:
  assumes "\<not> (isRotating (rotationState e) \<and> currentFace (rotationState e) \<noteq> None)"
  shows "useFrame_Main e delta = e \<lparr> groupRef :=
      spinGroup (delta * (cubeRotationSpeed / 2)) (delta * cubeRotationSpeed) (groupRef e) \<rparr>"
  using assms by (auto simp: useFrame_Main_def Let_def split: option.split)

lemma useFrame_Overshoot_turn_reaches_one:
  assumes "isRotating (rotationState e)" "currentFace (rotationState e) = Some f"
    and "\<not> overshootPhase (rotationState e)" "\<not> overshootReturn (rotationState e)"
    and "1 \<le> progress (rotationState e) + delta / (8 / 10)"
  shows "cubiePositions (useFrame_Overshoot e delta) = cubiePositions e"
    and "rotationState (useFrame_Overshoot e delta) =
      (rotationState e) \<lparr> progress := progress (rotationState e) + delta / (8 / 10),
                           overshootPhase := True \<rparr>"
    and "cubieRefs (useFrame_Overshoot e delta) =
      copyToRefs (calculateLayerRotation Overshoot (cubiePositions e) TOP (pi / 2))
        (getCubiesInLayer Overshoot (cubiePositions e) f) (cubieRefs e)"
  using assms by (simp_all add: useFrame_Overshoot_def Let_def)

lemma useFrame_Overshoot_overshoot_done:
  assumes "isRotating (rotationState e)" "currentFace (rotationState e) = Some f"
    and "overshootPhase (rotationState e)"
    and "1 \<le> progress (rotationState e) + delta / (8 / 10)"
  shows "cubiePositions (useFrame_Overshoot e delta) = cubiePositions e"
    and "rotationState (useFrame_Overshoot e delta) =
      (rotationState e) \<lparr> progress := progress (rotationState e) + delta / (8 / 10),
                           overshootPhase := False, overshootReturn := True \<rparr>"
    and "cubieRefs (useFrame_Overshoot e delta) =
      copyToRefs (calculateLayerRotation Overshoot (cubiePositions e) TOP (pi / 2 + degToRad 3))
        (getCubiesInLayer Overshoot (cubiePositions e) f) (cubieRefs e)"
  using assms by (simp_all add: useFrame_Overshoot_def Let_def)

lemma useFrame_Overshoot_return_done:
  assumes "isRotating (rotationState e)" "currentFace (rotationState e) = Some f"
    and "\<not> overshootPhase (rotationState e)" "overshootReturn (rotationState e)"
    and "1 \<le> progress (rotationState e) + delta / (8 / 10)"
  shows "cubiePositions (useFrame_Overshoot e delta) = rotateLayer Overshoot (cubiePositions e) f"
    and "rotationState (useFrame_Overshoot e delta) =
      (rotationState e) \<lparr> isRotating := False, inRotationPause := True, progress := 0,
                           overshootPhase := False, overshootReturn := False \<rparr>"
  using assms by (simp_all add: useFrame_Overshoot_def Let_def)

lemma useFrame_Overshoot_below_one:
  assumes "isRotating (rotationState e)" "currentFace (rotationState e) = Some f"
    and "progress (rotationState e) + delta / (8 / 10) < 1"
  shows "cubiePositions (useFrame_Overshoot e delta) = cubiePositions e"
    and "rotationState (useFrame_Overshoot e delta) =
      (rotationState e) \<lparr> progress := progress (rotationState e) + delta / (8 / 10) \<rparr>"
    and "cubieRefs (useFrame_Overshoot e delta) =
      copyToRefs (calculateLayerRotation Overshoot (cubiePositions e) TOP
          (if overshootPhase (rotationState e) then
             pi / 2 * easeInOutCubic (progress (rotationState e) + delta / (8 / 10))
               + degToRad 3 * easeInOutCubic (progress (rotationState e) + delta / (8 / 10))
           else if overshootReturn (rotationState e) then
             pi / 2 + degToRad 3 * (1 - easeInOutCubic (progress (rotationState e) + delta / (8 / 10)))
           else pi / 2 * easeInOutCubic (progress (rotationState e) + delta / (8 / 10))))
        (getCubiesInLayer Overshoot (cubiePositions e) f) (cubieRefs e)"
  using assms by (simp_all add: useFrame_Overshoot_def Let_def)

text \<open>
  Claim C6 against the code. When the turn of the overshoot variant reaches progress 1
  it is not committed: the frame sets \<open>overshootPhase\<close>. But the \<open>progress: 0\<close> of
  that update is overwritten by the \<open>progress: newProgress\<close> update at the end of the
  same frame, so progress stays at 1 or above. With any later frame deltas that are not
  negative, the next frame already ends the overshoot phase (angle 90 + 3 degrees, no
  eased angle in between) and the frame after it ends the return phase and commits
  \<open>rotateLayer\<close>: each sub-phase lasts one frame and neither eases.
\<close>

theorem overshoot_phases_last_one_frame:
  assumes "isRotating (rotationState e)" and "currentFace (rotationState e) = Some f"
    and "\<not> overshootPhase (rotationState e)" and "\<not> overshootReturn (rotationState e)"
    and "1 \<le> progress (rotationState e) + d1 / (8 / 10)"
    and "0 \<le> d2" and "0 \<le> d3"
  shows "cubiePositions (useFrame_Overshoot e d1) = cubiePositions e
    \<and> overshootPhase (rotationState (useFrame_Overshoot e d1))
    \<and> progress (rotationState (useFrame_Overshoot e d1))
        = progress (rotationState e) + d1 / (8 / 10)
    \<and> cubiePositions (useFrame_Overshoot (useFrame_Overshoot e d1) d2) = cubiePositions e
    \<and> \<not> overshootPhase (rotationState (useFrame_Overshoot (useFrame_Overshoot e d1) d2))
    \<and> overshootReturn (rotationState (useFrame_Overshoot (useFrame_Overshoot e d1) d2))
    \<and> cubieRefs (useFrame_Overshoot (useFrame_Overshoot e d1) d2)
        = copyToRefs
            (calculateLayerRotation Overshoot (cubiePositions e) TOP (pi / 2 + degToRad 3))
            (getCubiesInLayer Overshoot (cubiePositions e) f)
            (cubieRefs (useFrame_Overshoot e d1))
    \<and> cubiePositions (useFrame_Overshoot (useFrame_Overshoot (useFrame_Overshoot e d1) d2) d3)
        = rotateLayer Overshoot (cubiePositions e) f
    \<and> \<not> isRotating
          (rotationState (useFrame_Overshoot (useFrame_Overshoot (useFrame_Overshoot e d1) d2) d3))
    \<and> inRotationPause
          (rotationState (useFrame_Overshoot (useFrame_Overshoot (useFrame_Overshoot e d1) d2) d3))"
proof -
  let ?e1 = "useFrame_Overshoot e d1"
  let ?e2 = "useFrame_Overshoot ?e1 d2"
  let ?e3 = "useFrame_Overshoot ?e2 d3"
  note s1 = useFrame_Overshoot_turn_reaches_one [OF assms(1-5)]
  have r1: "isRotating (rotationState ?e1)" "currentFace (rotationState ?e1) = Some f"
    "overshootPhase (rotationState ?e1)"
    "progress (rotationState ?e1) = progress (rotationState e) + d1 / (8 / 10)"
    using assms(1,2) by (simp_all add: s1(2))
  have p2: "1 \<le> progress (rotationState ?e1) + d2 / (8 / 10)"
    using assms(5,6) by (simp add: r1(4))
  note s2 = useFrame_Overshoot_overshoot_done [OF r1(1-3) p2]
  have r2: "isRotating (rotationState ?e2)" "currentFace (rotationState ?e2) = Some f"
    "\<not> overshootPhase (rotationState ?e2)" "overshootReturn (rotationState ?e2)"
    "progress (rotationState ?e2) = progress (rotationState ?e1) + d2 / (8 / 10)"
    using r1 by (simp_all add: s2(2))
  have p3: "1 \<le> progress (rotationState ?e2) + d3 / (8 / 10)"
    using p2 assms(7) by (simp add: r2(5))
  note s3 = useFrame_Overshoot_return_done [OF r2(1-4) p3]
  have c3: "cubiePositions ?e3 = rotateLayer Overshoot (cubiePositions e) f"
    by (simp only: s3(1) s2(1) s1(1))
  have rf: "cubieRefs ?e2 = copyToRefs
            (calculateLayerRotation Overshoot (cubiePositions e) TOP (pi / 2 + degToRad 3))
            (getCubiesInLayer Overshoot (cubiePositions e) f) (cubieRefs ?e1)"
    by (simp only: s2(3) s1(1))
  have r3: "\<not> isRotating (rotationState ?e3)" "inRotationPause (rotationState ?e3)"
    by (simp_all add: s3(2))
  show ?thesis
    using s1(1) r1(3,4) s2(1) r2(3,4) rf c3 r3 by (simp only: simp_thms)
qed

lemma started_Overshoot_simps:
  "isRotating (rotationState startedEngine_Overshoot)"
  "currentFace (rotationState startedEngine_Overshoot) = Some RIGHT"
  "\<not> overshootPhase (rotationState startedEngine_Overshoot)"
  "\<not> overshootReturn (rotationState startedEngine_Overshoot)"
  "progress (rotationState startedEngine_Overshoot) = 0"
  "cubiePositions startedEngine_Overshoot = initialCubiePositions Overshoot"
  "cubieRefs startedEngine_Overshoot = map (\<lambda>c. Some (toTransform c)) (initialCubiePositions Overshoot)"
  "groupRef startedEngine_Overshoot = Some (0, 0)"
  by (simp_all add: startedEngine_Overshoot_def ROTATION_SEQUENCE_def)

theorem overshoot_phases_last_one_frame_witness:
  "overshootPhase (rotationState (useFrame_Overshoot startedEngine_Overshoot 1))
   \<and> progress (rotationState (useFrame_Overshoot startedEngine_Overshoot 1)) = 5 / 4
   \<and> overshootReturn (rotationState
        (useFrame_Overshoot (useFrame_Overshoot startedEngine_Overshoot 1) (1 / 60)))
   \<and> cubiePositions (useFrame_Overshoot (useFrame_Overshoot
        (useFrame_Overshoot startedEngine_Overshoot 1) (1 / 60)) (1 / 60))
      = rotateLayer Overshoot (initialCubiePositions Overshoot) RIGHT"
  using overshoot_phases_last_one_frame [of startedEngine_Overshoot RIGHT 1 "1 / 60" "1 / 60"]
  by (simp add: started_Overshoot_simps)

lemma started_Main_simps:
  "isRotating (rotationState startedEngine_Main)"
  "currentFace (rotationState startedEngine_Main) = Some RIGHT"
  "progress (rotationState startedEngine_Main) = 0"
  "cubiePositions startedEngine_Main = initialCubiePositions Main"
  "cubieRefs startedEngine_Main = map (\<lambda>c. Some (toTransform c)) (initialCubiePositions Main)"
  "groupRef startedEngine_Main = Some (0, 0)"
  by (simp_all add: startedEngine_Main_def ROTATION_SEQUENCE_def)

lemma position_rotateCubie:
  "position (rotateCubie V f a c) =
     applyAxisAngle (position c) (ROTATION_AXES f) (a * ROTATION_DIRECTIONS V f)"
  unfolding rotateCubie_def getFaceCenter_pivot pivot_multiple pivot_on_axis by simp

lemma initial_nth17:
  "initialCubiePositions V ! 17 = initialCubie V (1, - 1, - 1)"
  by (simp add: initialCubiePositions_def getTargetPositions_def)

lemma ease_half: "easeInOutCubic (1 / 2) = 1 / 2"
  by (simp add: easeInOutCubic_def)

text \<open>
  Claim C2 against the code of the overshoot variant. With the RIGHT face turning from
  progress 0, a frame of 0.4 seconds brings the progress to 0.5 and leaves the grid state
  as it is. Cubie 17 (grid index \<open>(1, -1, -1)\<close>) lies in the RIGHT layer, but its
  renderer-visible transform stays what it was: the intermediate positions are computed
  for the TOP layer, to which it does not belong. The claim expects the transform
  rotated about the RIGHT face by 90 degrees times \<open>ease(0.5)\<close>, which is another one.
\<close>

theorem overshoot_frame_rotates_top_layer:
  "cubiePositions (useFrame_Overshoot startedEngine_Overshoot (2 / 5))
     = cubiePositions startedEngine_Overshoot
   \<and> currentFace (rotationState startedEngine_Overshoot) = Some RIGHT
   \<and> progress (rotationState (useFrame_Overshoot startedEngine_Overshoot (2 / 5))) = 1 / 2
   \<and> 17 \<in> set (getCubiesInLayer Overshoot (cubiePositions startedEngine_Overshoot) RIGHT)
   \<and> cubieRefs (useFrame_Overshoot startedEngine_Overshoot (2 / 5)) ! 17
       = cubieRefs startedEngine_Overshoot ! 17
   \<and> cubieRefs (useFrame_Overshoot startedEngine_Overshoot (2 / 5)) ! 17
       \<noteq> Some (toTransform
            (calculateLayerRotation Overshoot (cubiePositions startedEngine_Overshoot) RIGHT
               (pi / 2 * easeInOutCubic (min (1 / 2) 1)) ! 17))"
proof -
  let ?e = "startedEngine_Overshoot"
  let ?cs = "initialCubiePositions Overshoot"
  have lt: "progress (rotationState ?e) + (2 / 5) / (8 / 10) < 1"
    by (simp add: started_Overshoot_simps)
  note s = useFrame_Overshoot_below_one [OF started_Overshoot_simps(1,2) lt]
  have c17: "?cs ! 17 = initialCubie Overshoot (1, - 1, - 1)" by (rule initial_nth17)
  have l17: "(17::nat) < length ?cs" by (simp add: length_initial)
  have inR: "inLayer Overshoot RIGHT (indices (?cs ! 17))"
    and notT: "\<not> inLayer Overshoot TOP (indices (?cs ! 17))"
    by (simp_all add: c17 initialCubie_def inLayer_def LAYER_INDICES_def EPSILON_def)
  have mem: "int 17 \<in> set (getCubiesInLayer Overshoot ?cs RIGHT)"
    using l17 inR by (simp only: in_getCubiesInLayer simp_thms)
  have refs: "cubieRefs ?e ! 17 = Some (toTransform (?cs ! 17))"
    using l17 by (simp add: started_Overshoot_simps)
  have top: "calculateLayerRotation Overshoot ?cs TOP a ! 17 = ?cs ! 17" for a
    using l17 notT by (simp add: calculateLayerRotation_map)
  have new: "cubieRefs (useFrame_Overshoot ?e (2 / 5)) ! 17 = Some (toTransform (?cs ! 17))"
    using l17 by (simp add: s(3) started_Overshoot_simps copyToRefs_nth top)
  have right: "position (calculateLayerRotation Overshoot ?cs RIGHT (pi / 4) ! 17)
      = Vector3 (1 + 1 / 1000000) 0 (- (1 + 1 / 1000000) * sqrt 2)"
    using l17 inR
    by (simp add: calculateLayerRotation_map position_rotateCubie c17 initialCubie_def
        ROTATION_AXES_simps ROTATION_DIRECTIONS_def rot_basis cos_45 sin_45
        CUBE_SIZE_def CUBE_GAP_def algebra_simps)
  have old: "position (?cs ! 17) = Vector3 (1 + 1 / 1000000) (- (1 + 1 / 1000000)) (- (1 + 1 / 1000000))"
    by (simp add: c17 initialCubie_def CUBE_SIZE_def CUBE_GAP_def)
  have ne: "toTransform (?cs ! 17)
      \<noteq> toTransform (calculateLayerRotation Overshoot ?cs RIGHT (pi / 4) ! 17)"
    by (simp add: toTransform_def right old)
  have ang: "pi / 2 * easeInOutCubic (min (1 / 2) 1) = pi / 4"
    by (simp add: ease_half)
  show ?thesis
    unfolding ang
    using s(1) s(2) mem new refs ne
    by (simp add: started_Overshoot_simps)
qed

text \<open>
  Claim C9, as amended. Neither frame callback clamps \<open>delta\<close>. Every call adds
  \<open>delta\<close> times the spin speed to the two idle-spin angles of the group, and while a
  turn animates and \<open>progress + delta / rotationDuration\<close> is below 1 it stores that
  sum as the new progress. So the spin angles and the progress do not decrease when
  \<open>delta\<close> is not negative, stay as they are when it is 0, and decrease when it is
  negative.
\<close>

theorem frame_applies_delta_unclamped:
  "groupRef (useFrame_Main e delta)
     = map_option (\<lambda>(rx, ry). (rx + delta * (cubeRotationSpeed / 2), ry + delta * cubeRotationSpeed))
         (groupRef e)
   \<and> groupRef (useFrame_Overshoot eo delta)
     = map_option (\<lambda>(rx, ry). (rx + delta * (5 / 1000), ry + delta * (1 / 100))) (groupRef eo)
   \<and> (isRotating (rotationState e) \<and> currentFace (rotationState e) \<noteq> None
        \<and> progress (rotationState e) + delta / rotationSpeed < 1
      \<longrightarrow> progress (rotationState (useFrame_Main e delta))
            = progress (rotationState e) + delta / rotationSpeed)
   \<and> (isRotating (rotationState eo) \<and> currentFace (rotationState eo) \<noteq> None
        \<and> progress (rotationState eo) + delta / (8 / 10) < 1
      \<longrightarrow> progress (rotationState (useFrame_Overshoot eo delta))
            = progress (rotationState eo) + delta / (8 / 10))"
proof -
  have m: "progress (rotationState (useFrame_Main e delta))
            = progress (rotationState e) + delta / rotationSpeed"
    if "isRotating (rotationState e)" "currentFace (rotationState e) \<noteq> None"
      "progress (rotationState e) + delta / rotationSpeed < 1"
  proof -
    from that(2) obtain f where f: "currentFace (rotationState e) = Some f" by auto
    show ?thesis by (simp add: useFrame_Main_rotating(2) [OF that(1) f that(3)])
  qed
  have o: "progress (rotationState (useFrame_Overshoot eo delta))
            = progress (rotationState eo) + delta / (8 / 10)"
    if "isRotating (rotationState eo)" "currentFace (rotationState eo) \<noteq> None"
      "progress (rotationState eo) + delta / (8 / 10) < 1"
  proof -
    from that(2) obtain f where f: "currentFace (rotationState eo) = Some f" by auto
    show ?thesis by (simp add: useFrame_Overshoot_below_one(2) [OF that(1) f that(3)])
  qed
  show ?thesis
    using m o by (simp add: groupRef_useFrame_Main groupRef_useFrame_Overshoot spinGroup_def)
qed

theorem frame_applies_delta_unclamped_witness:
  "groupRef (useFrame_Main startedEngine_Main (17 / 100)) = Some (17 / 4000, 17 / 2000)
   \<and> progress (rotationState (useFrame_Main startedEngine_Main (17 / 100))) = 1 / 5
   \<and> groupRef (useFrame_Overshoot startedEngine_Overshoot (2 / 5)) = Some (1 / 500, 1 / 250)
   \<and> progress (rotationState (useFrame_Overshoot startedEngine_Overshoot (2 / 5))) = 1 / 2"
  using frame_applies_delta_unclamped [of startedEngine_Main "17 / 100" startedEngine_Overshoot]
    frame_applies_delta_unclamped [of startedEngine_Main "2 / 5" startedEngine_Overshoot]
  by (simp add: started_Main_simps started_Overshoot_simps rotationSpeed_def cubeRotationSpeed_def)

text \<open>
  Claim C9 as stated fails: from the first turn at progress 0 and spin angles 0, a frame
  of the main variant with \<open>delta = -0.17\<close> brings the progress to -0.2 and both spin
  angles below 0, where a frame with \<open>delta = 0\<close> leaves all three at 0.
\<close>

theorem negative_delta_rewinds_counterexample:
  "progress (rotationState startedEngine_Main) = 0
   \<and> groupRef startedEngine_Main = Some (0, 0)
   \<and> progress (rotationState (useFrame_Main startedEngine_Main (- 17 / 100))) = - 1 / 5
   \<and> groupRef (useFrame_Main startedEngine_Main (- 17 / 100)) = Some (- 17 / 4000, - 17 / 2000)
   \<and> progress (rotationState (useFrame_Main startedEngine_Main 0)) = 0
   \<and> groupRef (useFrame_Main startedEngine_Main 0) = Some (0, 0)"
proof -
  have a: "progress (rotationState startedEngine_Main) + (- 17 / 100) / rotationSpeed < 1"
    and b: "progress (rotationState startedEngine_Main) + 0 / rotationSpeed < 1"
    by (simp_all add: started_Main_simps rotationSpeed_def)
  show ?thesis
    using useFrame_Main_rotating(2) [OF started_Main_simps(1,2) a]
      useFrame_Main_rotating(2) [OF started_Main_simps(1,2) b]
    by (simp add: groupRef_useFrame_Main spinGroup_def started_Main_simps rotationSpeed_def
        cubeRotationSpeed_def)
qed

text \<open>
  The frame step of the main variant during a turn. While the turn of a face stays below
  progress 1, a frame leaves the grid state as it is, stores the new progress, schedules
  nothing, and replaces the transform of exactly the cubies of the active layer whose
  ref is set: by the transform of that cubie in \<open>calculateLayerRotation\<close> of the grid
  state about the face by \<open>90 degrees * ease(min(progress, 1))\<close>. The grid state is
  replaced, by \<open>rotateLayer\<close>, in the frame in which the progress reaches 1.
\<close>

theorem main_frame_keeps_grid_state:
  assumes "isRotating (rotationState e)" and "currentFace (rotationState e) = Some f"
  shows "(progress (rotationState e) + delta / rotationSpeed < 1 \<longrightarrow>
       cubiePositions (useFrame_Main e delta) = cubiePositions e
     \<and> progress (rotationState (useFrame_Main e delta))
         = progress (rotationState e) + delta / rotationSpeed
     \<and> length (cubieRefs (useFrame_Main e delta)) = length (cubieRefs e)
     \<and> (\<forall>n < length (cubieRefs e).
          cubieRefs (useFrame_Main e delta) ! n =
            (if int n \<in> set (getCubiesInLayer Main (cubiePositions e) f) \<and> cubieRefs e ! n \<noteq> None
             then Some (toTransform
               (calculateLayerRotation Main (cubiePositions e) f
                  (pi / 2 * easeInOutCubic (min (progress (rotationState e) + delta / rotationSpeed) 1))
                ! n))
             else cubieRefs e ! n)))
   \<and> (1 \<le> progress (rotationState e) + delta / rotationSpeed \<longrightarrow>
       cubiePositions (useFrame_Main e delta) = rotateLayer Main (cubiePositions e) f)"
proof -
  have c: "cubiePositions (useFrame_Main e delta) = rotateLayer Main (cubiePositions e) f"
    if "1 \<le> progress (rotationState e) + delta / rotationSpeed"
    by (rule useFrame_Main_commit(1) [OF assms that])
  show ?thesis
    using c
    by (auto simp: useFrame_Main_rotating [OF assms] length_copyToRefs copyToRefs_nth)
qed

theorem main_frame_keeps_grid_state_witness:
  "cubiePositions (useFrame_Main startedEngine_Main (17 / 100)) = initialCubiePositions Main
   \<and> progress (rotationState (useFrame_Main startedEngine_Main (17 / 100))) = 1 / 5
   \<and> cubiePositions (useFrame_Main startedEngine_Main 1)
       = rotateLayer Main (initialCubiePositions Main) RIGHT"
  using main_frame_keeps_grid_state [OF started_Main_simps(1,2), of "17 / 100"]
    main_frame_keeps_grid_state [OF started_Main_simps(1,2), of 1]
  by (simp add: started_Main_simps rotationSpeed_def)

end
